theory Spec2Isabelle
  imports Main
begin

section \<open>Token values and the token file\<close>

text \<open>
  The module variables \<open>accessToken\<close> and \<open>refreshToken\<close> hold a string or \<open>null\<close>;
  a property read from a parsed object may also be \<open>undefined\<close> (the key is absent).
  The source tests these values by JavaScript truthiness (\<open>!accessToken\<close>,
  \<open>if (refreshToken)\<close>): \<open>undefined\<close>, \<open>null\<close> and the empty string are falsy, every
  other string is truthy.
\<close>

datatype tok = Undefined | Null | Str string

fun truthy :: "tok \<Rightarrow> bool" where
  "truthy (Str s) = (s \<noteq> [])"
| "truthy Undefined = False"
| "truthy Null = False"

text \<open>
  The file at \<open>TOKEN_PATH\<close>. Its bytes are not modelled; a file is represented by what
  \<open>fs.existsSync\<close>, \<open>fs.readFileSync\<close>, \<open>rawData.trim()\<close> and \<open>JSON.parse\<close> make of it:
  \<^item> \<open>NoFile\<close>: \<open>existsSync\<close> is false;
  \<^item> \<open>Unreadable\<close>: the file exists and \<open>readFileSync\<close> throws;
  \<^item> \<open>Blank\<close>: the text is empty or white space only (\<open>rawData.trim() === ''\<close>);
  \<^item> \<open>Garbage\<close>: \<open>JSON.parse\<close> throws a SyntaxError, or yields \<open>null\<close> so that the
    property read that follows throws a TypeError (the same \<open>catch\<close> takes both);
  \<^item> \<open>Parsed a r e\<close>: \<open>JSON.parse\<close> yields a value whose properties \<open>accessToken\<close>,
    \<open>refreshToken\<close> and \<open>tokenExpirationTime\<close> read as \<open>a\<close>, \<open>r\<close> and the number \<open>e\<close>.
  \<open>JSON.stringify\<close> of the object \<open>{accessToken, refreshToken, tokenExpirationTime}\<close>
  followed by \<open>JSON.parse\<close> gives the same three property values back (a key whose
  value is \<open>undefined\<close> is left out and reads as \<open>undefined\<close> again), so a write stores
  \<open>Parsed\<close> of the three module variables. Times are integers (milliseconds).
\<close>

datatype token_file = NoFile | Unreadable | Blank | Garbage | Parsed tok tok int

datatype port_owner = Free | Other | Self

datatype event =
    FsExists | FsMkdir | FsRead | FsWrite
  | TokenRequest tok
  | CodeExchange tok
  | ApiRequest tok
  | ProbePort | KillPortOwner | OpenLogin | Listen

text \<open>
  The state: the four module variables (\<open>let accessToken = null; let refreshToken = null;
  let tokenExpirationTime = 0; let authServer = null;\<close>), the part of the machine the
  code touches (the token file, its directory, whether \<open>mkdirSync\<close> and \<open>writeFileSync\<close>
  succeed, who holds port 8888), the number of promises returned by \<open>startAuthServer\<close>
  that are not settled yet, whether the process has exited (\<open>process.exit\<close>), and the
  list of I/O operations performed so far.
\<close>

record world =
  accessToken :: tok
  refreshToken :: tok
  tokenExpirationTime :: int
  authServer :: bool
  tokenFile :: token_file
  tokenDir :: bool
  diskWritable :: bool
  port :: port_owner
  pending :: nat
  exited :: bool
  trace :: "event list"

definition PORT :: nat where
  "PORT = 8888"

definition emit :: "event \<Rightarrow> world \<Rightarrow> world" where
  "emit e w = w\<lparr>trace := trace w @ [e]\<rparr>"

definition clearTokens :: "world \<Rightarrow> world" where
  "clearTokens w = w\<lparr>accessToken := Null, refreshToken := Null, tokenExpirationTime := 0\<rparr>"

text \<open>
  A process that has just started: the module variables have their initial values and no
  I/O has happened yet. The file system is the machine's and is kept; a listener the
  previous process held is gone.
\<close>

definition fresh_process :: "world \<Rightarrow> world" where
  "fresh_process w =
     w\<lparr>accessToken := Null, refreshToken := Null, tokenExpirationTime := 0,
       authServer := False, port := (if port w = Self then Free else port w),
       pending := 0, exited := False, trace := []\<rparr>"

text \<open>A process just started on a machine that has no token file and a free port.\<close>

definition initial :: world where
  "initial =
     \<lparr>accessToken = Null, refreshToken = Null, tokenExpirationTime = 0, authServer = False,
      tokenFile = NoFile, tokenDir = False, diskWritable = True, port = Free,
      pending = 0, exited = False, trace = []\<rparr>"

subsection \<open>saveTokens and loadTokens (build/index.js)\<close>

text \<open>\<open>ensureTokenDirExists\<close>: \<open>mkdirSync\<close> when the directory is missing; an error is caught and logged.\<close>

definition ensureTokenDirExists :: "world \<Rightarrow> world" where
  "ensureTokenDirExists w =
     (let w1 = emit FsExists w in
      if \<not> tokenDir w1 then
        (let w2 = emit FsMkdir w1 in
         if diskWritable w2 then w2\<lparr>tokenDir := True\<rparr> else w2)
      else w1)"

text \<open>
  \<open>fs.writeFileSync(TOKEN_PATH, JSON.stringify({accessToken, refreshToken,
  tokenExpirationTime}, null, 2))\<close>: it throws when the directory is missing or the disk
  refuses the write; the result says whether it returned.
\<close>

definition writeTokenFile :: "world \<Rightarrow> bool \<times> world" where
  "writeTokenFile w =
     (let w1 = emit FsWrite w in
      if tokenDir w1 \<and> diskWritable w1
      then (True, w1\<lparr>tokenFile := Parsed (accessToken w1) (refreshToken w1) (tokenExpirationTime w1)\<rparr>)
      else (False, w1))"

text \<open>\<open>saveTokens\<close>: the whole body is in a \<open>try\<close>; a failed write is logged and nothing is thrown.\<close>

definition saveTokens :: "world \<Rightarrow> world" where
  "saveTokens w = snd (writeTokenFile (ensureTokenDirExists w))"

text \<open>
  \<open>new Date(t).toISOString()\<close> throws a RangeError when \<open>t\<close> is more than 8.64e15
  milliseconds away from the epoch (the date is invalid). The source evaluates it in two
  log lines that stand inside a \<open>try\<close>.
\<close>

definition validDate :: "int \<Rightarrow> bool" where
  "validDate t = (- 8640000000000000 \<le> t \<and> t \<le> 8640000000000000)"

text \<open>
  \<open>loadTokens\<close> returns \<open>true\<close> when it has copied the file's three values into the module
  variables and logged them, and \<open>false\<close> otherwise; every exception is caught and gives
  \<open>false\<close>. The log line after the three assignments formats the time as a date: with an
  invalid date it throws, and the function returns \<open>false\<close> with the variables already
  overwritten.
\<close>

definition loadTokens :: "world \<Rightarrow> bool \<times> world" where
  "loadTokens w =
     (let w1 = emit FsExists w in
      case tokenFile w1 of
        NoFile \<Rightarrow> (False, w1)
      | Unreadable \<Rightarrow> (False, emit FsRead w1)
      | Blank \<Rightarrow> (False, emit FsRead w1)
      | Garbage \<Rightarrow> (False, emit FsRead w1)
      | Parsed a r e \<Rightarrow>
          (let w2 = emit FsRead w1 in
           if \<not> truthy a \<or> \<not> truthy r then (False, w2)
           else
             (let w3 = w2\<lparr>accessToken := a, refreshToken := r, tokenExpirationTime := e\<rparr>
              in if validDate e then (True, w3) else (False, w3))))"

text \<open>
  The module body of build/index.js calls \<open>loadTokens()\<close> once when the process starts
  (line 137); index.ts has no such call.
\<close>

definition startProcess :: "world \<Rightarrow> world" where
  "startProcess w = snd (loadTokens (fresh_process w))"

text \<open>The three token fields held in memory, as one value.\<close>

definition tokenRecord :: "world \<Rightarrow> tok \<times> tok \<times> int" where
  "tokenRecord w = (accessToken w, refreshToken w, tokenExpirationTime w)"

subsection \<open>The token endpoint and the Remote API\<close>

text \<open>
  What the network answers is an input of the model. A token-endpoint call
  (\<open>axios.post\<close>) either resolves with \<open>response.data\<close> or rejects (no response, or a
  status outside 2xx). \<open>expires_in\<close> is a number of seconds.
\<close>

record token_response =
  access_token :: tok
  expires_in :: int
  refresh_token :: tok

datatype token_result = TokenOk token_response | TokenFailed

text \<open>
  An API call (\<open>axios({...})\<close>) resolves with \<open>response.data\<close>, or rejects with an error that
  carries a response (\<open>error.response.status\<close>) or none; \<open>error.message\<close> is the string.
\<close>

datatype api_result = Response string | HttpError int string | NetworkError string

text \<open>
  The errors the code throws (each an \<open>Error\<close> told apart by its message, or a
  \<open>ServerAlreadyRunningError\<close> with its port):
  \<^item> \<open>NotAuthenticated\<close>: "Not authenticated. Please authorize the app first."
  \<^item> \<open>AuthenticationExpired\<close>: "Authentication expired. Please authenticate again."
  \<^item> \<open>AuthorizationExpired\<close>: "Authorization expired. Please authenticate again."
  \<^item> \<open>SpotifyApiError m\<close>: "Spotify API error: " followed by \<open>m\<close>
  \<^item> \<open>BrowserError\<close>, \<open>ListenError\<close>: the error of \<open>open\<close> and of the HTTP server, passed on
    as it is.
\<close>

datatype error =
    NotAuthenticated | AuthenticationExpired | AuthorizationExpired
  | SpotifyApiError string
  | ServerAlreadyRunningError nat
  | BrowserError | ListenError

subsection \<open>ensureToken\<close>

text \<open>The part of \<open>ensureToken\<close> after a resolved refresh call, up to the save.\<close>

definition applyRefresh :: "int \<Rightarrow> token_response \<Rightarrow> world \<Rightarrow> world" where
  "applyRefresh now resp w =
     (let w1 = w\<lparr>accessToken := access_token resp,
                 tokenExpirationTime := now + expires_in resp * 1000\<rparr>
      in if truthy (refresh_token resp) then w1\<lparr>refreshToken := refresh_token resp\<rparr> else w1)"

text \<open>
  \<open>ensureToken\<close> of build/index.js. \<open>now\<close> is \<open>Date.now()\<close>, \<open>rr\<close> is what the token
  endpoint answers if it is called. The result is the access token or \<open>null\<close>.
  \<open>loadIfEmpty\<close> is its first statement: \<open>if (!accessToken && !refreshToken) loadTokens()\<close>.
\<close>

definition loadIfEmpty :: "world \<Rightarrow> world" where
  "loadIfEmpty w =
     (if \<not> truthy (accessToken w) \<and> \<not> truthy (refreshToken w)
      then snd (loadTokens w) else w)"

definition ensureToken :: "int \<Rightarrow> token_result \<Rightarrow> world \<Rightarrow> tok \<times> world" where
  "ensureToken now rr w =
     (let w1 = loadIfEmpty w
      in if truthy (accessToken w1) \<and> now < tokenExpirationTime w1 - 60000
         then (accessToken w1, w1)
         else if truthy (refreshToken w1) then
           (let w2 = emit (TokenRequest (refreshToken w1)) w1 in
            case rr of
              TokenOk resp \<Rightarrow>
                (let w3 = saveTokens (applyRefresh now resp w2) in (accessToken w3, w3))
            | TokenFailed \<Rightarrow> (Null, saveTokens (clearTokens w2)))
         else (Null, w1))"

text \<open>\<open>ensureToken\<close> of index.ts: the same without the token file.\<close>

definition ensureToken_ts :: "int \<Rightarrow> token_result \<Rightarrow> world \<Rightarrow> tok \<times> world" where
  "ensureToken_ts now rr w =
     (if truthy (accessToken w) \<and> now < tokenExpirationTime w - 60000
      then (accessToken w, w)
      else if truthy (refreshToken w) then
        (let w2 = emit (TokenRequest (refreshToken w)) w in
         case rr of
           TokenOk resp \<Rightarrow> (let w3 = applyRefresh now resp w2 in (accessToken w3, w3))
         | TokenFailed \<Rightarrow> (Null, clearTokens w2))
      else (Null, w))"

subsection \<open>spotifyApiRequest\<close>

text \<open>
  The load written out at the head of \<open>spotifyApiRequest\<close> (build/index.js 252-276): unlike
  \<open>loadTokens\<close> it copies the three values without testing them.
\<close>

definition loadInline :: "world \<Rightarrow> world" where
  "loadInline w =
     (let w1 = emit FsExists w in
      case tokenFile w1 of
        NoFile \<Rightarrow> w1
      | Unreadable \<Rightarrow> emit FsRead w1
      | Blank \<Rightarrow> emit FsRead w1
      | Garbage \<Rightarrow> emit FsRead w1
      | Parsed a r e \<Rightarrow>
          (emit FsRead w1)\<lparr>accessToken := a, refreshToken := r, tokenExpirationTime := e\<rparr>)"

text \<open>
  The save written out after the refresh (build/index.js 301-315): one \<open>try\<close> around
  \<open>existsSync\<close>, \<open>mkdirSync\<close> and \<open>writeFileSync\<close>, so a failed \<open>mkdirSync\<close> skips the write.
\<close>

definition saveInline :: "world \<Rightarrow> world" where
  "saveInline w =
     (let w1 = emit FsExists w in
      if \<not> tokenDir w1 then
        (let w2 = emit FsMkdir w1 in
         if diskWritable w2 then snd (writeTokenFile (w2\<lparr>tokenDir := True\<rparr>)) else w2)
      else snd (writeTokenFile w1))"

text \<open>The request itself and the handling of its failure (build/index.js 333-360).\<close>

definition callApi :: "api_result \<Rightarrow> world \<Rightarrow> (error + string) \<times> world" where
  "callApi ar w =
     (let w1 = emit (ApiRequest (accessToken w)) w in
      case ar of
        Response d \<Rightarrow> (Inr d, w1)
      | HttpError status m \<Rightarrow>
          if status = 401 then (Inl AuthorizationExpired, clearTokens w1)
          else (Inl (SpotifyApiError m), w1)
      | NetworkError m \<Rightarrow> (Inl (SpotifyApiError m), w1))"

text \<open>
  \<open>spotifyApiRequest\<close> of build/index.js. \<open>ar\<close> is what the Remote API answers if it is
  called; a thrown error is \<open>Inl\<close>. After a resolved refresh the new values are assigned
  and the expiry is logged as a date inside the refresh \<open>try\<close> (line 300): with an invalid
  date the log line throws, and the \<open>catch\<close> handles it like a failed refresh, before
  anything is saved or requested.
\<close>

definition spotifyApiRequest ::
  "int \<Rightarrow> token_result \<Rightarrow> api_result \<Rightarrow> world \<Rightarrow> (error + string) \<times> world" where
  "spotifyApiRequest now rr ar w =
     (let w1 = (if \<not> truthy (accessToken w) \<or> \<not> truthy (refreshToken w)
                then loadInline w else w)
      in if \<not> truthy (accessToken w1) then (Inl NotAuthenticated, w1)
         else if now \<ge> tokenExpirationTime w1 - 60000 then
           (if truthy (refreshToken w1) then
              (let w2 = emit (TokenRequest (refreshToken w1)) w1 in
               case rr of
                 TokenOk resp \<Rightarrow>
                   (let w3 = applyRefresh now resp w2 in
                    if validDate (tokenExpirationTime w3) then callApi ar (saveInline w3)
                    else (Inl AuthenticationExpired, clearTokens w3))
               | TokenFailed \<Rightarrow> (Inl AuthenticationExpired, clearTokens w2))
            else (Inl AuthenticationExpired, w1\<lparr>accessToken := Null, tokenExpirationTime := 0\<rparr>))
         else callApi ar w1)"




subsection \<open>startAuthServer\<close>

text \<open>
  What the environment does during one call of \<open>startAuthServer\<close>: whether \<open>open\<close>
  resolves, whether the kill command (\<open>execAsync\<close>) resolves, whether the port is free
  one second after it, and whether \<open>app.listen\<close> throws at once, reports an error other
  than \<open>EADDRINUSE\<close> later, or neither.
\<close>

datatype listen_fault = NoFault | Thrown | ServerFault

record auth_env =
  open_ok :: bool
  kill_ok :: bool
  kill_frees :: bool
  listen_fault :: listen_fault

text \<open>An environment in which \<open>open\<close> resolves, the kill command fails and \<open>listen\<close> has no fault.\<close>

definition env_open_ok :: auth_env where
  "env_open_ok = \<lparr>open_ok = True, kill_ok = False, kill_frees = False, listen_fault = NoFault\<rparr>"

text \<open>
  The result of the \<open>async\<close> function: the promise is resolved, rejected, or waits for
  the callback route, or the process has exited before the promise was settled.
\<close>

datatype outcome = Resolved | Rejected error | Pending | Exited

text \<open>
  \<open>cleanupAndExit\<close>: \<open>cleanup()\<close> closes the listener and resets \<open>authServer\<close>, then
  \<open>process.exit\<close> ends the process, and its promises with it. The handler of
  \<open>uncaughtException\<close> calls it (both variants).
\<close>

definition cleanupAndExit :: "world \<Rightarrow> world" where
  "cleanupAndExit w =
     w\<lparr>authServer := False, port := (if port w = Self then Free else port w),
       pending := 0, exited := True\<rparr>"

text \<open>
  \<open>isPortInUse(PORT)\<close>: a probe server is bound to the port; \<open>EADDRINUSE\<close> gives \<open>true\<close>,
  a successful bind is closed again and gives \<open>false\<close>.
\<close>

definition isPortInUse :: "world \<Rightarrow> bool \<times> world" where
  "isPortInUse w = (port w \<noteq> Free, emit ProbePort w)"

text \<open>\<open>await open(login)\<close> inside a \<open>try\<close> whose \<open>catch\<close> throws \<open>ServerAlreadyRunningError(PORT)\<close>.\<close>

definition openExisting :: "auth_env \<Rightarrow> world \<Rightarrow> outcome \<times> world" where
  "openExisting env w =
     (let w1 = emit OpenLogin w in
      if open_ok env then (Resolved, w1) else (Rejected (ServerAlreadyRunningError PORT), w1))"

text \<open>
  The \<open>new Promise\<close> at the end of \<open>startAuthServer\<close>: the routes are registered and
  \<open>app.listen(PORT, ...)\<close> is called. When \<open>listen\<close> throws, \<open>authServer\<close> is not assigned
  and the promise is rejected. Otherwise \<open>authServer\<close> holds the server; an \<open>'error'\<close> event
  rejects the promise (\<open>EADDRINUSE\<close> as \<open>ServerAlreadyRunningError\<close>), and once the server
  listens the login page is opened and the promise waits for the callback. That \<open>open\<close>
  is not awaited and has no handler: when it rejects, the rejection is raised as an
  uncaught exception, whose handler calls \<open>cleanupAndExit(1)\<close>.
\<close>

definition listenForCallback :: "auth_env \<Rightarrow> world \<Rightarrow> outcome \<times> world" where
  "listenForCallback env w =
     (let w1 = emit Listen w in
      if listen_fault env = Thrown then (Rejected ListenError, w1)
      else
        (let w2 = w1\<lparr>authServer := True\<rparr> in
         if port w2 \<noteq> Free then (Rejected (ServerAlreadyRunningError PORT), w2)
         else if listen_fault env = ServerFault then (Rejected ListenError, w2)
         else
           (let w3 = emit OpenLogin (w2\<lparr>port := Self, pending := Suc (pending w2)\<rparr>) in
            if open_ok env then (Pending, w3) else (Exited, cleanupAndExit w3))))"

text \<open>\<open>startAuthServer\<close> of index.ts.\<close>

definition startAuthServer_ts :: "auth_env \<Rightarrow> world \<Rightarrow> outcome \<times> world" where
  "startAuthServer_ts env w =
     (if authServer w then
        (let w1 = emit OpenLogin w in
         if open_ok env then (Resolved, w1) else (Rejected BrowserError, w1))
      else
        (let (portInUse, w1) = isPortInUse w in
         if portInUse then openExisting env w1
         else listenForCallback env w1))"

text \<open>
  \<open>startAuthServer\<close> of build/index.js: when the port is in use it first runs a command
  that kills the process holding it. If the command fails, or the port is still in use
  one second later (the \<open>ServerAlreadyRunningError\<close> thrown there is caught by the same
  \<open>catch\<close>), it opens the login page of the existing server; if the port is free by then,
  it goes on to bind its own listener.
\<close>

definition startAuthServer :: "auth_env \<Rightarrow> world \<Rightarrow> outcome \<times> world" where
  "startAuthServer env w =
     (if authServer w then
        (let w1 = emit OpenLogin w in
         if open_ok env then (Resolved, w1) else (Rejected BrowserError, w1))
      else
        (let (portInUse, w1) = isPortInUse w in
         if portInUse then
           (let w2 = emit KillPortOwner w1 in
            if kill_ok env then
              (let w3 = (if kill_frees env then w2\<lparr>port := Free\<rparr> else w2);
                   (stillInUse, w4) = isPortInUse w3
               in if stillInUse then openExisting env w4
                  else listenForCallback env w4)
            else openExisting env w2)
         else listenForCallback env w1))"

subsection \<open>The callback route\<close>

text \<open>
  A request to \<open>/callback\<close> reaches this process only while its listener holds the port.
  \<open>code\<close> is \<open>req.query.code || null\<close> (a missing and an empty code are both falsy);
  \<open>resolve\<close> and \<open>reject\<close> settle the promise of the call that registered the route, and do
  nothing when it is settled already; the page sent to the browser is not modelled.
\<close>

definition settle :: "world \<Rightarrow> world" where
  "settle w = w\<lparr>pending := pending w - 1\<rparr>"

definition storeExchange :: "int \<Rightarrow> token_response \<Rightarrow> world \<Rightarrow> world" where
  "storeExchange now resp w =
     w\<lparr>accessToken := access_token resp, refreshToken := refresh_token resp,
       tokenExpirationTime := now + expires_in resp * 1000\<rparr>"

text \<open>The route of index.ts: the exchanged tokens are kept in memory only.\<close>

definition callback_ts :: "tok \<Rightarrow> int \<Rightarrow> token_result \<Rightarrow> world \<Rightarrow> world" where
  "callback_ts code now xr w =
     (if port w \<noteq> Self then w
      else if \<not> truthy code then settle w
      else
        (let w1 = emit (CodeExchange code) w in
         case xr of
           TokenOk resp \<Rightarrow> settle (storeExchange now resp w1)
         | TokenFailed \<Rightarrow> settle w1))"

text \<open>
  The route of build/index.js: the directory is created and the file written, each in a
  \<open>try\<close> of its own, the file is looked up again after the write (\<open>existsSync\<close>), and the
  token is tried on \<open>/me\<close>; the result of that request is only logged.
\<close>

definition callback :: "tok \<Rightarrow> int \<Rightarrow> token_result \<Rightarrow> world \<Rightarrow> world" where
  "callback code now xr w =
     (if port w \<noteq> Self then w
      else if \<not> truthy code then settle w
      else
        (let w1 = emit (CodeExchange code) w in
         case xr of
           TokenOk resp \<Rightarrow>
             (let w2 = ensureTokenDirExists (storeExchange now resp w1);
                  (written, w3) = writeTokenFile w2;
                  w4 = (if written then emit FsExists w3 else w3);
                  w5 = emit (ApiRequest (accessToken w4)) w4
              in settle w5)
         | TokenFailed \<Rightarrow> settle w1))"

subsection \<open>A process as a sequence of requests\<close>

text \<open>
  Requests are handled one at a time: an "authenticate now" request (the \<open>auth-spotify\<close>
  tool calls \<open>startAuthServer\<close>) or a browser request to the callback route. A process
  that has exited handles none. The
  \<open>beforeExit\<close> handler, which closes the listener and resets \<open>authServer\<close> when the
  process is about to exit, ends the sequence and is not an action.
\<close>

datatype action = Authenticate auth_env | Callback tok int token_result

fun step :: "action \<Rightarrow> world \<Rightarrow> world" where
  "step (Authenticate env) w = (if exited w then w else snd (startAuthServer env w))"
| "step (Callback code now xr) w = (if exited w then w else callback code now xr w)"

fun step_ts :: "action \<Rightarrow> world \<Rightarrow> world" where
  "step_ts (Authenticate env) w = (if exited w then w else snd (startAuthServer_ts env w))"
| "step_ts (Callback code now xr) w = (if exited w then w else callback_ts code now xr w)"

fun run :: "(action \<Rightarrow> world \<Rightarrow> world) \<Rightarrow> action list \<Rightarrow> world \<Rightarrow> world" where
  "run f [] w = w"
| "run f (a # as) w = run f as (f a w)"

text \<open>
  The invariant of a process: at most one promise of \<open>startAuthServer\<close> waits for the
  callback, and while one waits \<open>authServer\<close> is set.
\<close>

definition flow_inv :: "world \<Rightarrow> bool" where
  "flow_inv w = (pending w \<le> 1 \<and> (pending w = 1 \<longrightarrow> authServer w))"

section \<open>Token store\<close>

lemmas store_defs = loadTokens_def saveTokens_def writeTokenFile_def ensureTokenDirExists_def
  emit_def tokenRecord_def clearTokens_def fresh_process_def

lemma saveTokens_file:
  "diskWritable w \<Longrightarrow>
     tokenFile (saveTokens w) = Parsed (accessToken w) (refreshToken w) (tokenExpirationTime w)"
  by (simp add: store_defs Let_def)

lemma saveTokens_file_fail: "\<not> diskWritable w \<Longrightarrow> tokenFile (saveTokens w) = tokenFile w"
  by (simp add: store_defs Let_def)

lemma saveTokens_tokenRecord: "tokenRecord (saveTokens w) = tokenRecord w"
  by (simp add: store_defs Let_def)

lemma saveTokens_accessToken: "accessToken (saveTokens w) = accessToken w"
  by (simp add: store_defs Let_def)

text \<open>
  C7. \<open>loadTokens\<close> against a missing file, an empty file and a file with invalid syntax
  returns \<open>false\<close> ("absent") in all three cases, and so it does against a file that cannot
  be read. It returns a value in each case (nothing is thrown: every failure is a branch
  that yields \<open>false\<close>), and the tokens in memory are left as they were, so the caller
  falls back to authorization.
\<close>

theorem loadTokens_corruption_tolerance:
  "fst (loadTokens (w\<lparr>tokenFile := NoFile\<rparr>)) = False
   \<and> fst (loadTokens (w\<lparr>tokenFile := Blank\<rparr>)) = False
   \<and> fst (loadTokens (w\<lparr>tokenFile := Garbage\<rparr>)) = False
   \<and> fst (loadTokens (w\<lparr>tokenFile := Unreadable\<rparr>)) = False
   \<and> tokenRecord (snd (loadTokens (w\<lparr>tokenFile := NoFile\<rparr>))) = tokenRecord w
   \<and> tokenRecord (snd (loadTokens (w\<lparr>tokenFile := Blank\<rparr>))) = tokenRecord w
   \<and> tokenRecord (snd (loadTokens (w\<lparr>tokenFile := Garbage\<rparr>))) = tokenRecord w
   \<and> tokenRecord (snd (loadTokens (w\<lparr>tokenFile := Unreadable\<rparr>))) = tokenRecord w"
  by (simp add: loadTokens_def emit_def tokenRecord_def)

theorem loadTokens_corruption_tolerance_witness:
  "loadTokens (initial\<lparr>tokenFile := NoFile\<rparr>) = (False, initial\<lparr>trace := [FsExists]\<rparr>)
   \<and> loadTokens (initial\<lparr>tokenFile := Blank\<rparr>)
       = (False, initial\<lparr>tokenFile := Blank, trace := [FsExists, FsRead]\<rparr>)
   \<and> loadTokens (initial\<lparr>tokenFile := Garbage\<rparr>)
       = (False, initial\<lparr>tokenFile := Garbage, trace := [FsExists, FsRead]\<rparr>)
   \<and> fst (loadTokens (initial\<lparr>tokenFile := Unreadable\<rparr>)) = False"
  using loadTokens_corruption_tolerance [of initial]
  by (simp add: loadTokens_def emit_def initial_def)

text \<open>
  C10. When the file exists and parses, and its \<open>accessToken\<close> or its \<open>refreshToken\<close> is
  \<open>null\<close>, missing or empty, \<open>loadTokens\<close> returns \<open>false\<close> and copies nothing into the
  module variables. Hence the record written after an invalidation (both tokens \<open>null\<close>,
  time 0) is not loaded back by a later process.
\<close>

theorem loadTokens_incomplete_is_absent:
  "(tokenFile w = Parsed a r e \<and>
      (a = Null \<or> a = Undefined \<or> a = Str [] \<or> r = Null \<or> r = Undefined \<or> r = Str [])
      \<longrightarrow> fst (loadTokens w) = False \<and> tokenRecord (snd (loadTokens w)) = tokenRecord w)
   \<and> (diskWritable w
      \<longrightarrow> tokenFile (saveTokens (clearTokens w)) = Parsed Null Null 0
        \<and> fst (loadTokens (fresh_process (saveTokens (clearTokens w)))) = False)"
  by (auto simp add: store_defs Let_def)

theorem loadTokens_incomplete_is_absent_witness:
  "tokenFile (initial\<lparr>tokenFile := Parsed (Str ''A'') Null 5\<rparr>) = Parsed (Str ''A'') Null 5
   \<and> fst (loadTokens (initial\<lparr>tokenFile := Parsed (Str ''A'') Null 5\<rparr>)) = False
   \<and> tokenRecord (snd (loadTokens (initial\<lparr>tokenFile := Parsed (Str ''A'') Null 5\<rparr>)))
       = (Null, Null, 0)
   \<and> diskWritable initial
   \<and> tokenFile (saveTokens (clearTokens initial)) = Parsed Null Null 0
   \<and> fst (loadTokens (fresh_process (saveTokens (clearTokens initial)))) = False"
  using loadTokens_incomplete_is_absent
      [of "initial\<lparr>tokenFile := Parsed (Str ''A'') Null 5\<rparr>" "Str ''A''" Null 5]
    loadTokens_incomplete_is_absent [of initial]
  by (simp add: initial_def tokenRecord_def)

text \<open>
  C6, as stated: \<open>saveTokens\<close> followed by \<open>loadTokens\<close> in a fresh process gives back the
  saved record, for all values of the three fields. It fails in three ways. The record
  with access token "A", no refresh token and time 5 is written, and the fresh process
  finds it incomplete and keeps its initial values. The record \<open>{A, R, 8640000000000001}\<close>
  is written and copied, then the log line throws on the invalid date and \<open>loadTokens\<close>
  returns \<open>false\<close>. With a disk that refuses the write, the record \<open>{A, R, 5}\<close> is not
  stored and the fresh process finds no file.
\<close>

theorem save_load_roundtrip_fails:
  "tokenRecord (snd (loadTokens (fresh_process (saveTokens
      (initial\<lparr>accessToken := Str ''A'', refreshToken := Null, tokenExpirationTime := 5\<rparr>)))))
   \<noteq> tokenRecord (initial\<lparr>accessToken := Str ''A'', refreshToken := Null, tokenExpirationTime := 5\<rparr>)
   \<and> fst (loadTokens (fresh_process (saveTokens
      (initial\<lparr>accessToken := Str ''A'', refreshToken := Str ''R'',
         tokenExpirationTime := 8640000000000001\<rparr>)))) = False
   \<and> tokenRecord (snd (loadTokens (fresh_process (saveTokens
      (initial\<lparr>accessToken := Str ''A'', refreshToken := Str ''R'', tokenExpirationTime := 5,
         diskWritable := False\<rparr>)))))
   \<noteq> tokenRecord (initial\<lparr>accessToken := Str ''A'', refreshToken := Str ''R'', tokenExpirationTime := 5,
         diskWritable := False\<rparr>)"
  by (simp add: store_defs validDate_def initial_def Let_def)

text \<open>
  C6, amended: for every record whose access token and refresh token are both non-empty
  strings and whose time is a valid date (at most 8.64e15 ms from the epoch), when the
  write succeeds, \<open>saveTokens\<close> followed by \<open>loadTokens\<close> in a fresh process returns \<open>true\<close>
  and leaves the three fields equal to the saved ones.
\<close>

theorem save_load_roundtrip:
  "truthy (accessToken w) \<Longrightarrow> truthy (refreshToken w) \<Longrightarrow> validDate (tokenExpirationTime w) \<Longrightarrow>
   diskWritable w \<Longrightarrow>
     fst (loadTokens (fresh_process (saveTokens w))) = True
     \<and> tokenRecord (snd (loadTokens (fresh_process (saveTokens w)))) = tokenRecord w"
  by (simp add: store_defs Let_def)

theorem save_load_roundtrip_witness:
  "truthy (Str ''A'') \<and> truthy (Str ''R'') \<and> validDate 5 \<and> diskWritable initial
   \<and> fst (loadTokens (fresh_process (saveTokens
        (initial\<lparr>accessToken := Str ''A'', refreshToken := Str ''R'', tokenExpirationTime := 5\<rparr>)))) = True
   \<and> tokenRecord (snd (loadTokens (fresh_process (saveTokens
        (initial\<lparr>accessToken := Str ''A'', refreshToken := Str ''R'', tokenExpirationTime := 5\<rparr>)))))
      = (Str ''A'', Str ''R'', 5)"
  using save_load_roundtrip
      [of "initial\<lparr>accessToken := Str ''A'', refreshToken := Str ''R'', tokenExpirationTime := 5\<rparr>"]
  by (simp add: initial_def tokenRecord_def validDate_def)

section \<open>Token manager\<close>

lemma applyRefresh_tokenRecord:
  "tokenRecord (applyRefresh now resp w) =
     (access_token resp,
      if truthy (refresh_token resp) then refresh_token resp else refreshToken w,
      now + expires_in resp * 1000)"
  by (simp add: applyRefresh_def tokenRecord_def Let_def)

lemma ensureToken_refresh_ok:
  assumes "\<not> (truthy (accessToken (loadIfEmpty w)) \<and> now < tokenExpirationTime (loadIfEmpty w) - 60000)"
    and "truthy (refreshToken (loadIfEmpty w))"
  shows "ensureToken now (TokenOk resp) w =
           (access_token resp,
            saveTokens (applyRefresh now resp
              (emit (TokenRequest (refreshToken (loadIfEmpty w))) (loadIfEmpty w))))"
  using assms by (auto simp add: ensureToken_def Let_def applyRefresh_def saveTokens_accessToken)

lemma ensureToken_refresh_failed:
  assumes "\<not> (truthy (accessToken (loadIfEmpty w)) \<and> now < tokenExpirationTime (loadIfEmpty w) - 60000)"
    and "truthy (refreshToken (loadIfEmpty w))"
  shows "ensureToken now TokenFailed w =
           (Null, saveTokens (clearTokens
              (emit (TokenRequest (refreshToken (loadIfEmpty w))) (loadIfEmpty w))))"
  using assms by (auto simp add: ensureToken_def Let_def)

text \<open>
  C5. When the access token in memory is a non-empty string and \<open>now\<close> is more than
  60 seconds before \<open>tokenExpirationTime\<close>, \<open>ensureToken\<close> returns that token and the
  whole state, the list of I/O operations included, is as before: no token request, no
  read or write of the token file. This holds for \<open>ensureToken\<close> of build/index.js and of
  index.ts.
\<close>

theorem ensureToken_fresh_no_io:
  "truthy (accessToken w) \<Longrightarrow> now < tokenExpirationTime w - 60000 \<Longrightarrow>
     ensureToken now rr w = (accessToken w, w) \<and> ensureToken_ts now rr w = (accessToken w, w)"
  by (simp add: ensureToken_def ensureToken_ts_def loadIfEmpty_def)

theorem ensureToken_fresh_no_io_witness:
  "truthy (Str ''A'') \<and> (0::int) < 3600000 - 60000
   \<and> ensureToken 0 TokenFailed
        (initial\<lparr>accessToken := Str ''A'', refreshToken := Str ''R'', tokenExpirationTime := 3600000\<rparr>)
      = (Str ''A'',
         initial\<lparr>accessToken := Str ''A'', refreshToken := Str ''R'', tokenExpirationTime := 3600000\<rparr>)
   \<and> trace (snd (ensureToken 0 TokenFailed
        (initial\<lparr>accessToken := Str ''A'', refreshToken := Str ''R'', tokenExpirationTime := 3600000\<rparr>)))
      = []
   \<and> ensureToken_ts 0 TokenFailed
        (initial\<lparr>accessToken := Str ''A'', refreshToken := Str ''R'', tokenExpirationTime := 3600000\<rparr>)
      = (Str ''A'',
         initial\<lparr>accessToken := Str ''A'', refreshToken := Str ''R'', tokenExpirationTime := 3600000\<rparr>)"
  using ensureToken_fresh_no_io
      [of "initial\<lparr>accessToken := Str ''A'', refreshToken := Str ''R'', tokenExpirationTime := 3600000\<rparr>"
          0 TokenFailed]
  by (simp add: initial_def)

text \<open>
  C3. When \<open>ensureToken\<close> performs the refresh exchange (the token in memory, after the
  load of an empty memory, is not fresh, and there is a refresh token) and the exchange
  succeeds, it returns the response's access token and the record in memory is: the
  response's access token; the response's refresh token if it carries one, the previous
  refresh token otherwise; \<open>now + expires_in * 1000\<close>. Both variants. In particular, from
  \<open>{A, R, now - 1000}\<close> and the response \<open>{access_token: B, expires_in: 3600}\<close> the record
  is \<open>{B, R, now + 3600000}\<close>.
\<close>

theorem refresh_success_record:
  "(\<not> (truthy (accessToken (loadIfEmpty w)) \<and> now < tokenExpirationTime (loadIfEmpty w) - 60000)
     \<and> truthy (refreshToken (loadIfEmpty w))
     \<longrightarrow> fst (ensureToken now (TokenOk resp) w) = access_token resp
       \<and> tokenRecord (snd (ensureToken now (TokenOk resp) w)) =
           (access_token resp,
            if truthy (refresh_token resp) then refresh_token resp else refreshToken (loadIfEmpty w),
            now + expires_in resp * 1000))
   \<and> (\<not> (truthy (accessToken w) \<and> now < tokenExpirationTime w - 60000) \<and> truthy (refreshToken w)
     \<longrightarrow> fst (ensureToken_ts now (TokenOk resp) w) = access_token resp
       \<and> tokenRecord (snd (ensureToken_ts now (TokenOk resp) w)) =
           (access_token resp,
            if truthy (refresh_token resp) then refresh_token resp else refreshToken w,
            now + expires_in resp * 1000))
   \<and> tokenRecord (snd (ensureToken now
          (TokenOk \<lparr>access_token = Str ''B'', expires_in = 3600, refresh_token = Undefined\<rparr>)
          (w\<lparr>accessToken := Str ''A'', refreshToken := Str ''R'', tokenExpirationTime := now - 1000\<rparr>)))
       = (Str ''B'', Str ''R'', now + 3600000)
   \<and> tokenRecord (snd (ensureToken_ts now
          (TokenOk \<lparr>access_token = Str ''B'', expires_in = 3600, refresh_token = Undefined\<rparr>)
          (w\<lparr>accessToken := Str ''A'', refreshToken := Str ''R'', tokenExpirationTime := now - 1000\<rparr>)))
       = (Str ''B'', Str ''R'', now + 3600000)"
proof (intro conjI impI)
  assume a: "\<not> (truthy (accessToken (loadIfEmpty w)) \<and> now < tokenExpirationTime (loadIfEmpty w) - 60000)
     \<and> truthy (refreshToken (loadIfEmpty w))"
  then show "fst (ensureToken now (TokenOk resp) w) = access_token resp"
    by (simp add: ensureToken_refresh_ok)
  from a show "tokenRecord (snd (ensureToken now (TokenOk resp) w)) =
           (access_token resp,
            if truthy (refresh_token resp) then refresh_token resp else refreshToken (loadIfEmpty w),
            now + expires_in resp * 1000)"
    by (simp add: ensureToken_refresh_ok saveTokens_tokenRecord applyRefresh_tokenRecord emit_def)
next
  assume a: "\<not> (truthy (accessToken w) \<and> now < tokenExpirationTime w - 60000) \<and> truthy (refreshToken w)"
  then show "fst (ensureToken_ts now (TokenOk resp) w) = access_token resp"
    by (auto simp add: ensureToken_ts_def Let_def applyRefresh_def)
  from a show "tokenRecord (snd (ensureToken_ts now (TokenOk resp) w)) =
           (access_token resp,
            if truthy (refresh_token resp) then refresh_token resp else refreshToken w,
            now + expires_in resp * 1000)"
    by (auto simp add: ensureToken_ts_def Let_def applyRefresh_def tokenRecord_def emit_def)
next
  show "tokenRecord (snd (ensureToken now
          (TokenOk \<lparr>access_token = Str ''B'', expires_in = 3600, refresh_token = Undefined\<rparr>)
          (w\<lparr>accessToken := Str ''A'', refreshToken := Str ''R'', tokenExpirationTime := now - 1000\<rparr>)))
       = (Str ''B'', Str ''R'', now + 3600000)"
    by (simp add: ensureToken_def loadIfEmpty_def Let_def saveTokens_tokenRecord
        applyRefresh_tokenRecord emit_def)
next
  show "tokenRecord (snd (ensureToken_ts now
          (TokenOk \<lparr>access_token = Str ''B'', expires_in = 3600, refresh_token = Undefined\<rparr>)
          (w\<lparr>accessToken := Str ''A'', refreshToken := Str ''R'', tokenExpirationTime := now - 1000\<rparr>)))
       = (Str ''B'', Str ''R'', now + 3600000)"
    by (simp add: ensureToken_ts_def Let_def applyRefresh_tokenRecord emit_def)
qed

theorem refresh_success_record_witness:
  "fst (ensureToken 5000
          (TokenOk \<lparr>access_token = Str ''B'', expires_in = 3600, refresh_token = Str ''S''\<rparr>)
          (initial\<lparr>accessToken := Str ''A'', refreshToken := Str ''R'', tokenExpirationTime := 4000\<rparr>))
     = Str ''B''
   \<and> tokenRecord (snd (ensureToken 5000
          (TokenOk \<lparr>access_token = Str ''B'', expires_in = 3600, refresh_token = Str ''S''\<rparr>)
          (initial\<lparr>accessToken := Str ''A'', refreshToken := Str ''R'', tokenExpirationTime := 4000\<rparr>)))
     = (Str ''B'', Str ''S'', 3605000)
   \<and> tokenRecord (snd (ensureToken_ts 5000
          (TokenOk \<lparr>access_token = Str ''B'', expires_in = 3600, refresh_token = Str ''S''\<rparr>)
          (initial\<lparr>accessToken := Str ''A'', refreshToken := Str ''R'', tokenExpirationTime := 4000\<rparr>)))
     = (Str ''B'', Str ''S'', 3605000)
   \<and> tokenRecord (snd (ensureToken 5000
          (TokenOk \<lparr>access_token = Str ''B'', expires_in = 3600, refresh_token = Undefined\<rparr>)
          (initial\<lparr>accessToken := Str ''A'', refreshToken := Str ''R'', tokenExpirationTime := 5000 - 1000\<rparr>)))
     = (Str ''B'', Str ''R'', 5000 + 3600000)"
  using refresh_success_record
      [of "initial\<lparr>accessToken := Str ''A'', refreshToken := Str ''R'', tokenExpirationTime := 4000\<rparr>"
          5000 "\<lparr>access_token = Str ''B'', expires_in = 3600, refresh_token = Str ''S''\<rparr>"]
    refresh_success_record [of initial 5000]
  by (simp add: initial_def loadIfEmpty_def)

section \<open>Authenticated request executor\<close>











lemma callApi_401:
  "callApi (HttpError 401 m) w = (Inl AuthorizationExpired, clearTokens (emit (ApiRequest (accessToken w)) w))"
  by (simp add: callApi_def Let_def)

lemma spotifyApiRequest_401_result:
  "fst (spotifyApiRequest now rr (HttpError 401 m) w)
     \<in> {Inl NotAuthenticated, Inl AuthenticationExpired, Inl AuthorizationExpired}"
  by (simp add: spotifyApiRequest_def Let_def callApi_401 split: token_result.splits)



text \<open>
  C1. With fresh tokens in memory and the same tokens in the token file, a request
  answered with status 401 makes \<open>spotifyApiRequest\<close> (build/index.js) throw
  "Authorization expired" and reset the three module variables, and it leaves the file
  as it was: the cleared state is not written. A later \<open>ensureToken\<close>, before the expiry
  time of the rejected token, finds the memory empty, loads the file and returns the
  rejected access token; a later \<open>spotifyApiRequest\<close> loads the file too and sends the
  rejected token again.
\<close>

theorem invalidation_not_persisted:
  assumes "truthy (accessToken w)" and "truthy (refreshToken w)"
    and "tokenFile w = Parsed (accessToken w) (refreshToken w) (tokenExpirationTime w)"
    and "now < tokenExpirationTime w - 60000" and "later < tokenExpirationTime w - 60000"
  shows "fst (spotifyApiRequest now rr (HttpError 401 m) w) = Inl AuthorizationExpired
    \<and> tokenRecord (snd (spotifyApiRequest now rr (HttpError 401 m) w)) = (Null, Null, 0)
    \<and> tokenFile (snd (spotifyApiRequest now rr (HttpError 401 m) w)) = tokenFile w
    \<and> fst (ensureToken later rr' (snd (spotifyApiRequest now rr (HttpError 401 m) w))) = accessToken w
    \<and> trace (snd (spotifyApiRequest later rr' ar (snd (spotifyApiRequest now rr (HttpError 401 m) w))))
        = trace w @ [ApiRequest (accessToken w), FsExists, FsRead, ApiRequest (accessToken w)]"
proof -
  have e: "spotifyApiRequest now rr (HttpError 401 m) w
            = (Inl AuthorizationExpired, clearTokens (emit (ApiRequest (accessToken w)) w))"
    using assms by (simp add: spotifyApiRequest_def callApi_401)
  have 1: "fst (ensureToken later rr' (clearTokens (emit (ApiRequest (accessToken w)) w))) = accessToken w"
    using assms
    by (simp add: ensureToken_def loadIfEmpty_def loadTokens_def clearTokens_def emit_def Let_def)
  have 2: "trace (snd (spotifyApiRequest later rr' ar (clearTokens (emit (ApiRequest (accessToken w)) w))))
        = trace w @ [ApiRequest (accessToken w), FsExists, FsRead, ApiRequest (accessToken w)]"
    using assms
    by (simp add: spotifyApiRequest_def loadInline_def callApi_def clearTokens_def emit_def Let_def
        split: api_result.splits)
  show ?thesis
    by (simp add: e 1 2) (simp add: clearTokens_def emit_def tokenRecord_def)
qed

theorem invalidation_not_persisted_witness:
  "fst (ensureToken 2000 TokenFailed
     (snd (spotifyApiRequest 1000 TokenFailed (HttpError 401 ''Request failed with status code 401'')
       (initial\<lparr>accessToken := Str ''A'', refreshToken := Str ''R'', tokenExpirationTime := 3601000,
          tokenFile := Parsed (Str ''A'') (Str ''R'') 3601000, tokenDir := True\<rparr>)))) = Str ''A''
   \<and> tokenFile
     (snd (spotifyApiRequest 1000 TokenFailed (HttpError 401 ''Request failed with status code 401'')
       (initial\<lparr>accessToken := Str ''A'', refreshToken := Str ''R'', tokenExpirationTime := 3601000,
          tokenFile := Parsed (Str ''A'') (Str ''R'') 3601000, tokenDir := True\<rparr>)))
     = Parsed (Str ''A'') (Str ''R'') 3601000"
  using invalidation_not_persisted
      [of "initial\<lparr>accessToken := Str ''A'', refreshToken := Str ''R'', tokenExpirationTime := 3601000,
          tokenFile := Parsed (Str ''A'') (Str ''R'') 3601000, tokenDir := True\<rparr>"
          1000 2000 TokenFailed "''Request failed with status code 401''" TokenFailed]
  by (simp add: initial_def)

text \<open>
  C4. With stale tokens in memory and the same tokens in the token file, a refresh that
  fails inside \<open>spotifyApiRequest\<close> (build/index.js 317-323, the token acquisition every
  tool runs) makes it throw "Authentication expired" and reset the three module
  variables, and it leaves the file as it was: the persisted store is not reset. The
  next \<open>spotifyApiRequest\<close> finds the memory empty, loads the stale tokens back from the
  file and sends the same refresh token again. The catch block of \<open>ensureToken\<close>
  (build/index.js 228-234), which no tool calls, does write the reset record.
\<close>

theorem refresh_failure_not_persisted:
  assumes "truthy (accessToken w)" and "truthy (refreshToken w)"
    and "tokenFile w = Parsed (accessToken w) (refreshToken w) (tokenExpirationTime w)"
    and "tokenExpirationTime w - 60000 \<le> now" and "tokenExpirationTime w - 60000 \<le> later"
  shows "fst (spotifyApiRequest now TokenFailed ar w) = Inl AuthenticationExpired
    \<and> tokenRecord (snd (spotifyApiRequest now TokenFailed ar w)) = (Null, Null, 0)
    \<and> tokenFile (snd (spotifyApiRequest now TokenFailed ar w)) = tokenFile w
    \<and> trace (snd (spotifyApiRequest later TokenFailed ar' (snd (spotifyApiRequest now TokenFailed ar w))))
        = trace w @ [TokenRequest (refreshToken w), FsExists, FsRead, TokenRequest (refreshToken w)]
    \<and> tokenFile (snd (ensureToken now TokenFailed w))
        = (if diskWritable w then Parsed Null Null 0 else tokenFile w)"
proof -
  have e: "spotifyApiRequest now TokenFailed ar w
            = (Inl AuthenticationExpired, clearTokens (emit (TokenRequest (refreshToken w)) w))"
    using assms by (simp add: spotifyApiRequest_def Let_def)
  have 1: "trace (snd (spotifyApiRequest later TokenFailed ar'
              (clearTokens (emit (TokenRequest (refreshToken w)) w))))
        = trace w @ [TokenRequest (refreshToken w), FsExists, FsRead, TokenRequest (refreshToken w)]"
    using assms
    by (simp add: spotifyApiRequest_def loadInline_def clearTokens_def emit_def Let_def)
  have l: "loadIfEmpty w = w"
    using assms by (simp add: loadIfEmpty_def)
  have f: "ensureToken now TokenFailed w
            = (Null, saveTokens (clearTokens (emit (TokenRequest (refreshToken w)) w)))"
    using assms ensureToken_refresh_failed [of w now] by (simp add: l)
  have 2: "tokenFile (snd (ensureToken now TokenFailed w))
        = (if diskWritable w then Parsed Null Null 0 else tokenFile w)"
  proof (cases "diskWritable w")
    case True
    then show ?thesis by (simp add: f saveTokens_file clearTokens_def emit_def)
  next
    case False
    then show ?thesis by (simp add: f saveTokens_file_fail clearTokens_def emit_def)
  qed
  show ?thesis
    by (simp add: e 1 2) (simp add: clearTokens_def emit_def tokenRecord_def)
qed

theorem refresh_failure_not_persisted_witness:
  "spotifyApiRequest 100000 TokenFailed (Response ''ok'')
     (initial\<lparr>accessToken := Str ''A'', refreshToken := Str ''R'', tokenExpirationTime := 30000,
        tokenFile := Parsed (Str ''A'') (Str ''R'') 30000, tokenDir := True\<rparr>)
   = (Inl AuthenticationExpired,
      initial\<lparr>tokenFile := Parsed (Str ''A'') (Str ''R'') 30000, tokenDir := True,
        trace := [TokenRequest (Str ''R'')]\<rparr>)
   \<and> trace (snd (spotifyApiRequest 200000 TokenFailed (Response ''ok'')
       (snd (spotifyApiRequest 100000 TokenFailed (Response ''ok'')
         (initial\<lparr>accessToken := Str ''A'', refreshToken := Str ''R'', tokenExpirationTime := 30000,
            tokenFile := Parsed (Str ''A'') (Str ''R'') 30000, tokenDir := True\<rparr>)))))
     = [TokenRequest (Str ''R''), FsExists, FsRead, TokenRequest (Str ''R'')]
   \<and> tokenFile (snd (ensureToken 100000 TokenFailed
       (initial\<lparr>accessToken := Str ''A'', refreshToken := Str ''R'', tokenExpirationTime := 30000,
          tokenFile := Parsed (Str ''A'') (Str ''R'') 30000, tokenDir := True\<rparr>)))
     = Parsed Null Null 0"
  using refresh_failure_not_persisted
      [of "initial\<lparr>accessToken := Str ''A'', refreshToken := Str ''R'', tokenExpirationTime := 30000,
        tokenFile := Parsed (Str ''A'') (Str ''R'') 30000, tokenDir := True\<rparr>"
          100000 200000 "Response ''ok''" "Response ''ok''"]
  by (simp add: initial_def spotifyApiRequest_def clearTokens_def emit_def Let_def)




section \<open>Authorization flow coordinator\<close>

lemma flow_inv_fresh: "flow_inv (fresh_process w)"
  by (simp add: flow_inv_def fresh_process_def)

lemma flow_inv_start: "flow_inv (startProcess w)"
  by (simp add: flow_inv_def startProcess_def loadTokens_def emit_def fresh_process_def Let_def
      split: token_file.splits)

lemma listenForCallback_inv:
  "\<not> authServer w \<Longrightarrow> flow_inv w \<Longrightarrow> flow_inv (snd (listenForCallback env w))"
  by (auto simp add: flow_inv_def listenForCallback_def cleanupAndExit_def emit_def Let_def)

lemma emit_inv: "flow_inv (emit e w) = flow_inv w"
  by (simp add: flow_inv_def emit_def)

lemma emit_authServer: "authServer (emit e w) = authServer w"
  by (simp add: emit_def)

lemma openExisting_inv: "flow_inv (snd (openExisting env w)) = flow_inv w"
  by (simp add: openExisting_def Let_def emit_inv)

lemma startAuthServer_ts_inv: "flow_inv w \<Longrightarrow> flow_inv (snd (startAuthServer_ts env w))"
  by (simp add: startAuthServer_ts_def isPortInUse_def Let_def emit_inv openExisting_inv
      listenForCallback_inv emit_authServer)

lemma port_update_inv: "flow_inv (w\<lparr>port := p\<rparr>) = flow_inv w"
  by (simp add: flow_inv_def)

lemma startAuthServer_inv: "flow_inv w \<Longrightarrow> flow_inv (snd (startAuthServer env w))"
  by (simp add: startAuthServer_def isPortInUse_def Let_def emit_inv openExisting_inv
      listenForCallback_inv emit_authServer port_update_inv)

lemma settle_inv: "flow_inv w \<Longrightarrow> flow_inv (settle w)"
  by (auto simp add: flow_inv_def settle_def)

lemma storeExchange_inv: "flow_inv (storeExchange now resp w) = flow_inv w"
  by (simp add: flow_inv_def storeExchange_def)

lemma ensureTokenDirExists_inv: "flow_inv (ensureTokenDirExists w) = flow_inv w"
  by (simp add: flow_inv_def ensureTokenDirExists_def emit_def Let_def)

lemma writeTokenFile_inv: "flow_inv (snd (writeTokenFile w)) = flow_inv w"
  by (simp add: flow_inv_def writeTokenFile_def emit_def Let_def)

lemma callback_ts_inv: "flow_inv w \<Longrightarrow> flow_inv (callback_ts code now xr w)"
  by (simp add: callback_ts_def Let_def settle_inv emit_inv storeExchange_inv split: token_result.splits)

lemma callback_inv: "flow_inv w \<Longrightarrow> flow_inv (callback code now xr w)"
  by (simp add: callback_def Let_def settle_inv emit_inv storeExchange_inv
      ensureTokenDirExists_inv writeTokenFile_inv split_beta split: token_result.splits)

lemma step_inv: "flow_inv w \<Longrightarrow> flow_inv (step a w)"
  by (cases a) (simp_all add: startAuthServer_inv callback_inv)

lemma step_ts_inv: "flow_inv w \<Longrightarrow> flow_inv (step_ts a w)"
  by (cases a) (simp_all add: startAuthServer_ts_inv callback_ts_inv)

lemma run_inv:
  assumes "\<And>a w. flow_inv w \<Longrightarrow> flow_inv (f a w)"
  shows "flow_inv w \<Longrightarrow> flow_inv (run f as w)"
  by (induction as arbitrary: w) (simp_all add: assms)

lemma second_request:
  "authServer w \<Longrightarrow> startAuthServer env w =
     (if open_ok env then Resolved else Rejected BrowserError, emit OpenLogin w)"
  by (simp add: startAuthServer_def Let_def)

lemma second_request_ts:
  "authServer w \<Longrightarrow> startAuthServer_ts env w =
     (if open_ok env then Resolved else Rejected BrowserError, emit OpenLogin w)"
  by (simp add: startAuthServer_ts_def Let_def)

text \<open>
  C8, as stated: started while another process holds the port, the coordinator never
  starts a listener of its own, and signals \<open>ServerAlreadyRunning\<close> when the other server
  cannot be reached. In build/index.js it starts one when the kill command succeeds and
  frees the port: it binds the port, sets \<open>authServer\<close> and waits for the callback. And in
  both variants, when this process still holds a server object in \<open>authServer\<close>, a failed
  \<open>open\<close> is thrown as it is, not as \<open>ServerAlreadyRunningError\<close>.
\<close>

theorem port_contention_kill_then_listen:
  "startAuthServer \<lparr>open_ok = True, kill_ok = True, kill_frees = True, listen_fault = NoFault\<rparr>
     (initial\<lparr>port := Other\<rparr>)
   = (Pending, initial\<lparr>authServer := True, port := Self, pending := 1,
        trace := [ProbePort, KillPortOwner, ProbePort, Listen, OpenLogin]\<rparr>)
   \<and> startAuthServer \<lparr>open_ok = False, kill_ok = False, kill_frees = False, listen_fault = NoFault\<rparr>
     (initial\<lparr>authServer := True, port := Other\<rparr>)
   = (Rejected BrowserError, initial\<lparr>authServer := True, port := Other, trace := [OpenLogin]\<rparr>)
   \<and> startAuthServer_ts \<lparr>open_ok = False, kill_ok = False, kill_frees = False, listen_fault = NoFault\<rparr>
     (initial\<lparr>authServer := True, port := Other\<rparr>)
   = (Rejected BrowserError, initial\<lparr>authServer := True, port := Other, trace := [OpenLogin]\<rparr>)"
  by (simp add: startAuthServer_def startAuthServer_ts_def isPortInUse_def listenForCallback_def
      emit_def initial_def Let_def)

text \<open>
  C8, amended. Another process holds the port.
  \<^item> When \<open>authServer\<close> is not set: \<open>startAuthServer\<close> of index.ts probes the port and opens
    the login page of the existing server; it resolves if that succeeds and throws
    \<open>ServerAlreadyRunningError(PORT)\<close> if it fails, and nothing but the list of I/O
    operations changes (no listener, no local state). \<open>startAuthServer\<close> of build/index.js
    first runs its kill command and does the same whenever that command fails or leaves
    the port in use.
  \<^item> When \<open>authServer\<close> is not set and the kill command of build/index.js frees the port,
    \<open>startAuthServer\<close> calls \<open>app.listen\<close> itself: a listen error rejects the operation;
    otherwise it holds the port, has set \<open>authServer\<close> and opened the login page, and
    waits for the callback, or the process exits when that \<open>open\<close> fails.
  \<^item> When \<open>authServer\<close> is set, either variant only opens the login page: it resolves if
    that succeeds and throws the error of \<open>open\<close> if it fails; no listener is started.
\<close>

theorem port_contention:
  "(\<not> authServer w \<and> port w = Other
      \<longrightarrow> startAuthServer_ts env w =
            (if open_ok env then Resolved else Rejected (ServerAlreadyRunningError PORT),
             w\<lparr>trace := trace w @ [ProbePort, OpenLogin]\<rparr>))
   \<and> (\<not> authServer w \<and> port w = Other \<and> \<not> (kill_ok env \<and> kill_frees env)
      \<longrightarrow> startAuthServer env w =
            (if open_ok env then Resolved else Rejected (ServerAlreadyRunningError PORT),
             w\<lparr>trace := trace w @
                  (if kill_ok env then [ProbePort, KillPortOwner, ProbePort, OpenLogin]
                   else [ProbePort, KillPortOwner, OpenLogin])\<rparr>))
   \<and> (\<not> authServer w \<and> port w = Other \<and> kill_ok env \<and> kill_frees env
      \<longrightarrow> startAuthServer env w =
            (if listen_fault env = Thrown then
               (Rejected ListenError,
                w\<lparr>port := Free, trace := trace w @ [ProbePort, KillPortOwner, ProbePort, Listen]\<rparr>)
             else if listen_fault env = ServerFault then
               (Rejected ListenError,
                w\<lparr>authServer := True, port := Free,
                  trace := trace w @ [ProbePort, KillPortOwner, ProbePort, Listen]\<rparr>)
             else if open_ok env then
               (Pending,
                w\<lparr>authServer := True, port := Self, pending := Suc (pending w),
                  trace := trace w @ [ProbePort, KillPortOwner, ProbePort, Listen, OpenLogin]\<rparr>)
             else
               (Exited,
                w\<lparr>authServer := False, port := Free, pending := 0, exited := True,
                  trace := trace w @ [ProbePort, KillPortOwner, ProbePort, Listen, OpenLogin]\<rparr>)))
   \<and> (authServer w
      \<longrightarrow> startAuthServer_ts env w =
            (if open_ok env then Resolved else Rejected BrowserError,
             w\<lparr>trace := trace w @ [OpenLogin]\<rparr>)
        \<and> startAuthServer env w =
            (if open_ok env then Resolved else Rejected BrowserError,
             w\<lparr>trace := trace w @ [OpenLogin]\<rparr>))"
proof (intro conjI impI)
  assume "\<not> authServer w \<and> port w = Other"
  then show "startAuthServer_ts env w =
            (if open_ok env then Resolved else Rejected (ServerAlreadyRunningError PORT),
             w\<lparr>trace := trace w @ [ProbePort, OpenLogin]\<rparr>)"
    by (simp add: startAuthServer_ts_def isPortInUse_def openExisting_def emit_def Let_def)
next
  assume "\<not> authServer w \<and> port w = Other \<and> \<not> (kill_ok env \<and> kill_frees env)"
  then show "startAuthServer env w =
            (if open_ok env then Resolved else Rejected (ServerAlreadyRunningError PORT),
             w\<lparr>trace := trace w @
                  (if kill_ok env then [ProbePort, KillPortOwner, ProbePort, OpenLogin]
                   else [ProbePort, KillPortOwner, OpenLogin])\<rparr>)"
    by (simp add: startAuthServer_def isPortInUse_def openExisting_def emit_def Let_def)
next
  assume "\<not> authServer w \<and> port w = Other \<and> kill_ok env \<and> kill_frees env"
  then show "startAuthServer env w =
            (if listen_fault env = Thrown then
               (Rejected ListenError,
                w\<lparr>port := Free, trace := trace w @ [ProbePort, KillPortOwner, ProbePort, Listen]\<rparr>)
             else if listen_fault env = ServerFault then
               (Rejected ListenError,
                w\<lparr>authServer := True, port := Free,
                  trace := trace w @ [ProbePort, KillPortOwner, ProbePort, Listen]\<rparr>)
             else if open_ok env then
               (Pending,
                w\<lparr>authServer := True, port := Self, pending := Suc (pending w),
                  trace := trace w @ [ProbePort, KillPortOwner, ProbePort, Listen, OpenLogin]\<rparr>)
             else
               (Exited,
                w\<lparr>authServer := False, port := Free, pending := 0, exited := True,
                  trace := trace w @ [ProbePort, KillPortOwner, ProbePort, Listen, OpenLogin]\<rparr>))"
    by (simp add: startAuthServer_def isPortInUse_def listenForCallback_def cleanupAndExit_def
        emit_def Let_def)
next
  assume "authServer w"
  then show "startAuthServer_ts env w =
            (if open_ok env then Resolved else Rejected BrowserError,
             w\<lparr>trace := trace w @ [OpenLogin]\<rparr>)"
    and "startAuthServer env w =
            (if open_ok env then Resolved else Rejected BrowserError,
             w\<lparr>trace := trace w @ [OpenLogin]\<rparr>)"
    by (simp_all add: startAuthServer_ts_def startAuthServer_def emit_def Let_def)
qed

theorem port_contention_witness:
  "startAuthServer_ts \<lparr>open_ok = True, kill_ok = False, kill_frees = False, listen_fault = NoFault\<rparr>
     (initial\<lparr>port := Other\<rparr>)
     = (Resolved, initial\<lparr>port := Other, trace := [ProbePort, OpenLogin]\<rparr>)
   \<and> startAuthServer_ts \<lparr>open_ok = False, kill_ok = False, kill_frees = False, listen_fault = NoFault\<rparr>
     (initial\<lparr>port := Other\<rparr>)
     = (Rejected (ServerAlreadyRunningError 8888), initial\<lparr>port := Other, trace := [ProbePort, OpenLogin]\<rparr>)
   \<and> startAuthServer \<lparr>open_ok = True, kill_ok = True, kill_frees = False, listen_fault = NoFault\<rparr>
     (initial\<lparr>port := Other\<rparr>)
     = (Resolved, initial\<lparr>port := Other, trace := [ProbePort, KillPortOwner, ProbePort, OpenLogin]\<rparr>)
   \<and> startAuthServer \<lparr>open_ok = False, kill_ok = False, kill_frees = False, listen_fault = NoFault\<rparr>
     (initial\<lparr>port := Other\<rparr>)
     = (Rejected (ServerAlreadyRunningError 8888),
        initial\<lparr>port := Other, trace := [ProbePort, KillPortOwner, OpenLogin]\<rparr>)
   \<and> startAuthServer \<lparr>open_ok = True, kill_ok = True, kill_frees = True, listen_fault = Thrown\<rparr>
     (initial\<lparr>port := Other\<rparr>)
     = (Rejected ListenError,
        initial\<lparr>trace := [ProbePort, KillPortOwner, ProbePort, Listen]\<rparr>)
   \<and> startAuthServer \<lparr>open_ok = True, kill_ok = False, kill_frees = False, listen_fault = NoFault\<rparr>
     (initial\<lparr>authServer := True, port := Other\<rparr>)
     = (Resolved, initial\<lparr>authServer := True, port := Other, trace := [OpenLogin]\<rparr>)"
  using port_contention [of "initial\<lparr>port := Other\<rparr>" "\<lparr>open_ok = True, kill_ok = False, kill_frees = False, listen_fault = NoFault\<rparr>"]
    port_contention [of "initial\<lparr>port := Other\<rparr>" "\<lparr>open_ok = False, kill_ok = False, kill_frees = False, listen_fault = NoFault\<rparr>"]
    port_contention [of "initial\<lparr>port := Other\<rparr>" "\<lparr>open_ok = True, kill_ok = True, kill_frees = False, listen_fault = NoFault\<rparr>"]
    port_contention [of "initial\<lparr>port := Other\<rparr>" "\<lparr>open_ok = True, kill_ok = True, kill_frees = True, listen_fault = Thrown\<rparr>"]
    port_contention [of "initial\<lparr>authServer := True, port := Other\<rparr>" "\<lparr>open_ok = True, kill_ok = False, kill_frees = False, listen_fault = NoFault\<rparr>"]
  by (simp add: initial_def PORT_def)

lemma callback_exchanges:
  "port w = Self \<Longrightarrow> truthy code \<Longrightarrow> CodeExchange code \<in> set (trace (callback code now xr w))"
  by (simp add: callback_def settle_def storeExchange_def ensureTokenDirExists_def
      writeTokenFile_def emit_def Let_def split: token_result.splits)

lemma callback_ts_exchanges:
  "port w = Self \<Longrightarrow> truthy code \<Longrightarrow> CodeExchange code \<in> set (trace (callback_ts code now xr w))"
  by (simp add: callback_ts_def settle_def storeExchange_def emit_def Let_def
      split: token_result.splits)

text \<open>
  C9, as stated: a second "authenticate now" request issued while a flow is pending is
  coalesced into the pending operation and starts no parallel flow. It is not: after one
  request the operation is pending, and a second request is resolved at once, with no
  token received yet, after it has opened the login page a second time; and when both
  pages are completed in the browser, two code exchanges run.
\<close>

theorem second_request_not_coalesced:
  "pending (run step [Authenticate env_open_ok] (startProcess initial)) = 1
   \<and> fst (startAuthServer env_open_ok
        (run step [Authenticate env_open_ok] (startProcess initial))) = Resolved
   \<and> accessToken (run step [Authenticate env_open_ok, Authenticate env_open_ok] (startProcess initial)) = Null
   \<and> pending (run step [Authenticate env_open_ok, Authenticate env_open_ok] (startProcess initial)) = 1
   \<and> trace (run step_ts
        [Authenticate env_open_ok, Authenticate env_open_ok,
         Callback (Str ''c1'') 1000 (TokenOk \<lparr>access_token = Str ''A'', expires_in = 3600, refresh_token = Str ''R''\<rparr>),
         Callback (Str ''c2'') 2000 (TokenOk \<lparr>access_token = Str ''B'', expires_in = 3600, refresh_token = Str ''S''\<rparr>)]
        (fresh_process initial))
     = [ProbePort, Listen, OpenLogin, OpenLogin, CodeExchange (Str ''c1''), CodeExchange (Str ''c2'')]
   \<and> fst (startAuthServer_ts env_open_ok
        (run step_ts [Authenticate env_open_ok] (fresh_process initial))) = Resolved"
  by (simp add: startAuthServer_def startAuthServer_ts_def isPortInUse_def listenForCallback_def
      callback_ts_def settle_def storeExchange_def emit_def initial_def fresh_process_def
      startProcess_def loadTokens_def env_open_ok_def Let_def)

text \<open>
  C9, amended. In every state a process reaches from its start (for build/index.js the
  load of the token file included) by "authenticate now" requests and callback
  requests, handled one at a time, at most one promise of
  \<open>startAuthServer\<close> is pending. A request that arrives while one is pending adds none
  and binds no listener, and it is not joined to the pending one: it opens the login
  page served by the existing listener once more and is settled at once (resolved, or
  rejected with the error of \<open>open\<close>), the state being otherwise as before. Every
  callback request that carries a code starts a code exchange on that listener. Both
  variants.
\<close>

theorem single_pending_flow:
  "pending (run step as (startProcess w0)) \<le> 1
   \<and> pending (run step_ts as (fresh_process w0)) \<le> 1
   \<and> (pending (run step as (startProcess w0)) = 1
      \<longrightarrow> startAuthServer env (run step as (startProcess w0)) =
            (if open_ok env then Resolved else Rejected BrowserError,
             emit OpenLogin (run step as (startProcess w0))))
   \<and> (pending (run step_ts as (fresh_process w0)) = 1
      \<longrightarrow> startAuthServer_ts env (run step_ts as (fresh_process w0)) =
            (if open_ok env then Resolved else Rejected BrowserError,
             emit OpenLogin (run step_ts as (fresh_process w0))))
   \<and> (port w = Self \<and> truthy code
      \<longrightarrow> CodeExchange code \<in> set (trace (callback code now xr w))
        \<and> CodeExchange code \<in> set (trace (callback_ts code now xr w)))"
proof -
  have i: "flow_inv (run step as (startProcess w0))"
    by (rule run_inv) (simp_all add: step_inv flow_inv_start)
  have j: "flow_inv (run step_ts as (fresh_process w0))"
    by (rule run_inv) (simp_all add: step_ts_inv flow_inv_fresh)
  from i j show ?thesis
    by (simp add: flow_inv_def second_request second_request_ts callback_exchanges
        callback_ts_exchanges)
qed

theorem single_pending_flow_witness:
  "pending (run step [Authenticate env_open_ok]
      (startProcess initial)) = 1
   \<and> startAuthServer env_open_ok
      (run step [Authenticate env_open_ok]
        (startProcess initial))
     = (Resolved, initial\<lparr>authServer := True, port := Self, pending := 1,
          trace := [FsExists, ProbePort, Listen, OpenLogin, OpenLogin]\<rparr>)
   \<and> pending (run step_ts [Authenticate env_open_ok]
      (fresh_process initial)) = 1
   \<and> port (initial\<lparr>port := Self\<rparr>) = Self \<and> truthy (Str ''c1'')
   \<and> CodeExchange (Str ''c1'') \<in> set (trace (callback (Str ''c1'') 1000 TokenFailed (initial\<lparr>port := Self\<rparr>)))"
  using single_pending_flow
    [of "[Authenticate env_open_ok]"
        initial env_open_ok "initial\<lparr>port := Self\<rparr>" "Str ''c1''" 1000 TokenFailed]
  by (simp add: startAuthServer_def startAuthServer_ts_def isPortInUse_def listenForCallback_def
      emit_def initial_def fresh_process_def startProcess_def loadTokens_def env_open_ok_def
      Let_def)

end
